theory Spec2Isabelle
  imports Main
begin

section \<open>The unified phone controls: call lifecycle and hold timer\<close>

text \<open>
  The component \<^verbatim>\<open>UnifiedPhoneControls\<close> keeps its state in instance fields that its
  event handlers, timer callbacks and public methods mutate. The embedding is explicit
  state passing: every method takes the fields it reads as a record and returns the
  record it leaves behind.

  Conventions of the embedding.
  \<^item> Time is the number of milliseconds since the epoch, an \<open>int\<close>; every method that reads
    the clock (\<^verbatim>\<open>Date.now()\<close>, \<^verbatim>\<open>new Date()\<close>) takes the value read as its argument
    \<open>now\<close>, one argument for each read that reaches the state. \<^verbatim>\<open>finalizeCall\<close> is the
    one method with two such reads: \<^verbatim>\<open>new Date()\<close> for the end of the call and, when the
    call is on hold, \<^verbatim>\<open>Date.now()\<close> inside \<^verbatim>\<open>endHoldTimer\<close> for the end of the hold. The
    two values are not assumed equal or ordered.
  \<^item> JavaScript numbers holding whole seconds and milliseconds are \<open>int\<close>;
    \<^verbatim>\<open>Math.floor(x / 1000)\<close> is \<open>x div 1000\<close>, which rounds towards minus infinity as
    \<^verbatim>\<open>Math.floor\<close> does.
  \<^item> A field that holds \<^verbatim>\<open>null\<close> or a value is an \<open>option\<close>. \<^verbatim>\<open>currentHoldStart\<close> holds the
    number \<^verbatim>\<open>Date.now()\<close>, so that the test \<^verbatim>\<open>!this.currentHoldStart\<close> is also true for
    the number 0; \<^verbatim>\<open>callStartTime\<close> holds a \<^verbatim>\<open>Date\<close> object, which is never falsy.
  \<^item> A timer field (\<^verbatim>\<open>callDurationInterval\<close>, \<^verbatim>\<open>holdTimerInterval\<close>,
    \<^verbatim>\<open>toolkitCheckInterval\<close>) is \<open>True\<close> exactly when it holds the handle of a registered
    interval; a registered interval is what lets the corresponding tick fire.
  \<^item> The ISO strings stored in a hold session (\<^verbatim>\<open>toISOString()\<close>) are kept as the
    timestamps they print.
  \<^item> The debug log, the toasts and the console output are not part of the state below:
    no method reads them back. The one way logging decides control flow is kept: a
    handler's first statement is \<^verbatim>\<open>JSON.stringify(event.detail || {})\<close> inside its
    \<^verbatim>\<open>try\<close>, so a payload that cannot be serialised sends the handler to its
    \<^verbatim>\<open>catch\<close> before it changes anything.
  \<^item> Fields that none of the methods below reads or writes (the record id, the
    recording flag, the drag position, the styling properties) are left out, and so are
    the hold, mute, transfer and flag buttons, which call the toolkit and show a toast
    but assign no field: the state changes when the toolkit's event arrives.
\<close>

subsection \<open>Data\<close>

datatype call_status = No_Call | Incoming | Connected | On_Hold | Ended

record hold_session =
  sessionNumber :: nat
  startTime :: int
  endTime :: int
  duration :: int

record phone_controls =
  isCallActive :: bool
  callStatus :: call_status
  isOnHold :: bool
  isMuted :: bool
  callDuration :: int
  formattedCallDuration :: string
  callStartTime :: "int option"
  callDurationInterval :: bool
  totalHoldTime :: int
  currentHoldStart :: "int option"
  holdSessions :: "hold_session list"
  formattedTotalHoldTime :: string
  holdColorClass :: string
  holdTimerInterval :: bool
  phoneNumber :: string
  callDirection :: string
  displayPhoneNumber :: string
  telephonyAvailable :: bool
  toolkitApiAvailable :: bool
  eventListenersSetup :: bool
  toolkitCheckInterval :: bool
  callEndDateTime :: "int option"

text \<open>The field initialisers of the class.\<close>

definition initial :: phone_controls where
  "initial =
     \<lparr> isCallActive = False, callStatus = No_Call, isOnHold = False, isMuted = False,
       callDuration = 0, formattedCallDuration = ''00:00:00'', callStartTime = None,
       callDurationInterval = False, totalHoldTime = 0, currentHoldStart = None,
       holdSessions = [], formattedTotalHoldTime = ''00:00'',
       holdColorClass = ''hold-timer-green'', holdTimerInterval = False,
       phoneNumber = [], callDirection = [], displayPhoneNumber = [],
       telephonyAvailable = False, toolkitApiAvailable = False,
       eventListenersSetup = False, toolkitCheckInterval = False,
       callEndDateTime = None \<rparr>"

text \<open>The fields of the Voice Call record that \<^verbatim>\<open>processVoiceCallData\<close> is handed. A field
  is \<open>None\<close> when the record has no value for it.\<close>

record voice_call_fields =
  FromPhoneNumber :: "string option"
  ToPhoneNumber :: "string option"
  CallType :: "string option"
  CallStartDateTime :: "int option"
  CallEndDateTime :: "int option"

subsection \<open>Formatting\<close>

definition digit_char :: "nat \<Rightarrow> char" where
  "digit_char d = ''0123456789'' ! d"

text \<open>\<^verbatim>\<open>Number.prototype.toString\<close> on a non-negative whole number.\<close>

fun toString :: "nat \<Rightarrow> string" where
  "toString n =
     (if n < 10 then [digit_char n] else toString (n div 10) @ [digit_char (n mod 10)])"

declare toString.simps [simp del]

definition padStart2 :: "string \<Rightarrow> string" where
  "padStart2 str = replicate (2 - length str) (CHR ''0'') @ str"

definition formatTime :: "int \<Rightarrow> bool \<Rightarrow> string" where
  "formatTime seconds includeHours =
     (if seconds = 0 \<or> seconds < 0 then (if includeHours then ''00:00:00'' else ''00:00'')
      else
        let hrs = seconds div 3600;
            mins = (seconds mod 3600) div 60;
            secs = seconds mod 60
        in if includeHours
           then padStart2 (toString (nat hrs)) @ '':'' @ padStart2 (toString (nat mins))
                  @ '':'' @ padStart2 (toString (nat secs))
           else padStart2 (toString (nat mins)) @ '':'' @ padStart2 (toString (nat secs)))"

definition getHoldColorClass :: "int \<Rightarrow> string" where
  "getHoldColorClass d =
     (if d \<le> 30 then ''hold-timer-green''
      else if d \<le> 120 then ''hold-timer-yellow''
      else ''hold-timer-red'')"

definition is_digit :: "char \<Rightarrow> bool" where
  "is_digit c = (c \<in> set ''0123456789'')"

definition formatPhoneNumber :: "string \<Rightarrow> string" where
  "formatPhoneNumber pn =
     (if pn = [] then []
      else
        let cleaned = filter is_digit pn
        in if length cleaned = 11 \<and> take 1 cleaned = ''1''
           then ''+1 ('' @ take 3 (drop 1 cleaned) @ '') '' @ take 3 (drop 4 cleaned)
                  @ ''-'' @ drop 7 cleaned
           else if length cleaned = 10
           then ''+1 ('' @ take 3 cleaned @ '') '' @ take 3 (drop 3 cleaned)
                  @ ''-'' @ drop 6 cleaned
           else pn)"

subsection \<open>The record page\<close>

definition truthy :: "string option \<Rightarrow> string option" where
  "truthy v = (case v of Some (c # cs) \<Rightarrow> Some (c # cs) | _ \<Rightarrow> None)"

definition processVoiceCallData :: "voice_call_fields \<Rightarrow> phone_controls \<Rightarrow> phone_controls" where
  "processVoiceCallData r s =
     (let pn = (case truthy (FromPhoneNumber r) of Some v \<Rightarrow> v
                | None \<Rightarrow> (case truthy (ToPhoneNumber r) of Some v \<Rightarrow> v | None \<Rightarrow> []))
      in s\<lparr> phoneNumber := pn,
            displayPhoneNumber := formatPhoneNumber pn,
            callDirection := (if CallType r = Some ''Inbound'' then ''Inbound'' else ''Outbound''),
            callEndDateTime := CallEndDateTime r \<rparr>)"

subsection \<open>The call duration timer\<close>

definition startCallDurationTimer :: "phone_controls \<Rightarrow> phone_controls" where
  "startCallDurationTimer s = s\<lparr> callDurationInterval := True \<rparr>"

definition updateCallDuration :: "int \<Rightarrow> phone_controls \<Rightarrow> phone_controls" where
  "updateCallDuration now s =
     (case callStartTime s of
        None \<Rightarrow> s\<lparr> formattedCallDuration := ''00:00:00'' \<rparr>
      | Some started \<Rightarrow>
          if \<not> isCallActive s then s\<lparr> formattedCallDuration := ''00:00:00'' \<rparr>
          else s\<lparr> callDuration := (now - started) div 1000,
                   formattedCallDuration := formatTime ((now - started) div 1000) True \<rparr>)"

subsection \<open>The hold timer\<close>

definition startHoldTimer :: "int \<Rightarrow> phone_controls \<Rightarrow> phone_controls" where
  "startHoldTimer now s =
     (if isOnHold s then s
      else s\<lparr> currentHoldStart := Some now, isOnHold := True, holdTimerInterval := True \<rparr>)"

definition endHoldTimer :: "int \<Rightarrow> phone_controls \<Rightarrow> phone_controls" where
  "endHoldTimer now s =
     (case currentHoldStart s of
        None \<Rightarrow> s
      | Some started \<Rightarrow>
          if \<not> isOnHold s \<or> started = 0 then s
          else
            let holdEndTime = now;
                holdDuration = (holdEndTime - started) div 1000;
                total = totalHoldTime s + holdDuration;
                session = \<lparr> sessionNumber = length (holdSessions s) + 1,
                            startTime = started, endTime = holdEndTime,
                            duration = holdDuration \<rparr>
            in s\<lparr> totalHoldTime := total,
                  holdSessions := holdSessions s @ [session],
                  isOnHold := False,
                  currentHoldStart := None,
                  holdTimerInterval := False,
                  formattedTotalHoldTime := formatTime total False,
                  holdColorClass := getHoldColorClass total \<rparr>)"

definition updateHoldDisplayTimer :: "int \<Rightarrow> phone_controls \<Rightarrow> phone_controls" where
  "updateHoldDisplayTimer now s =
     (case currentHoldStart s of
        None \<Rightarrow> s
      | Some started \<Rightarrow>
          if \<not> isOnHold s \<or> started = 0 then s
          else
            let currentHoldDuration = (now - started) div 1000;
                displayTime = totalHoldTime s + currentHoldDuration
            in s\<lparr> formattedTotalHoldTime := formatTime displayTime False,
                  holdColorClass := getHoldColorClass displayTime \<rparr>)"

definition resetHoldTimer :: "phone_controls \<Rightarrow> phone_controls" where
  "resetHoldTimer s =
     s\<lparr> totalHoldTime := 0, currentHoldStart := None, isOnHold := False,
        holdSessions := [], formattedTotalHoldTime := ''00:00'',
        holdColorClass := ''hold-timer-green'', holdTimerInterval := False \<rparr>"

subsection \<open>Finding the toolkit\<close>

definition stopToolkitPolling :: "phone_controls \<Rightarrow> phone_controls" where
  "stopToolkitPolling s = s\<lparr> toolkitCheckInterval := False \<rparr>"

definition startToolkitPolling :: "phone_controls \<Rightarrow> phone_controls" where
  "startToolkitPolling s = s\<lparr> toolkitCheckInterval := True \<rparr>"

text \<open>\<open>found\<close> says whether \<^verbatim>\<open>querySelector\<close> finds the toolkit element in the template.\<close>

definition setupToolkitEventListeners :: "bool \<Rightarrow> phone_controls \<Rightarrow> phone_controls" where
  "setupToolkitEventListeners found s =
     (if eventListenersSetup s then s
      else if \<not> found then s
      else stopToolkitPolling
             (s\<lparr> toolkitApiAvailable := True, telephonyAvailable := True,
                 eventListenersSetup := True \<rparr>))"

definition checkAndSetupToolkitListeners :: "bool \<Rightarrow> phone_controls \<Rightarrow> phone_controls" where
  "checkAndSetupToolkitListeners found s =
     (if found \<and> \<not> eventListenersSetup s then setupToolkitEventListeners found s
      else if \<not> found \<and> eventListenersSetup s
      then s\<lparr> eventListenersSetup := False, toolkitApiAvailable := False,
              telephonyAvailable := False \<rparr>
      else s)"

subsection \<open>Connecting and ending a call\<close>

definition cleanupTimers :: "phone_controls \<Rightarrow> phone_controls" where
  "cleanupTimers s =
     stopToolkitPolling (s\<lparr> callDurationInterval := False, holdTimerInterval := False \<rparr>)"

definition handleCallStarted :: "int \<Rightarrow> phone_controls \<Rightarrow> phone_controls" where
  "handleCallStarted now s =
     startCallDurationTimer
       ((resetHoldTimer s)\<lparr> isCallActive := True, callStatus := Connected,
                            callStartTime := Some now \<rparr>)"

text \<open>
  \<open>endedAt\<close> is the clock as \<^verbatim>\<open>new Date()\<close> reads it for \<^verbatim>\<open>callEndDateTime\<close>; \<open>holdEnd\<close>
  is the clock as \<^verbatim>\<open>Date.now()\<close> reads it afterwards inside \<^verbatim>\<open>endHoldTimer\<close>, a read
  that happens only when the call is on hold.
\<close>

definition finalizeCall :: "int \<Rightarrow> int \<Rightarrow> phone_controls \<Rightarrow> phone_controls" where
  "finalizeCall endedAt holdEnd s =
     (let s1 = s\<lparr> isCallActive := False, callStatus := Ended,
                  callEndDateTime := Some endedAt, telephonyAvailable := False \<rparr>;
          s2 = (if isOnHold s1 then endHoldTimer holdEnd s1 else s1)
      in cleanupTimers s2)"

subsection \<open>The toolkit's event handlers\<close>

text \<open>
  The detail of an event is only logged. \<open>Unserializable\<close> is a detail on which
  \<^verbatim>\<open>JSON.stringify\<close> throws (a cyclic object, a BigInt): the handler's \<^verbatim>\<open>catch\<close> logs
  the error and the handler returns with the state untouched.
\<close>

datatype payload = Serializable | Unserializable

definition handleHoldEvent :: "payload \<Rightarrow> int \<Rightarrow> phone_controls \<Rightarrow> phone_controls" where
  "handleHoldEvent detail now s =
     (if detail = Unserializable then s else startHoldTimer now s)"

definition handleResumeEvent :: "payload \<Rightarrow> int \<Rightarrow> phone_controls \<Rightarrow> phone_controls" where
  "handleResumeEvent detail now s =
     (if detail = Unserializable then s
      else if isOnHold s then endHoldTimer now s
      else startHoldTimer now s)"

definition handleMuteEvent :: "payload \<Rightarrow> phone_controls \<Rightarrow> phone_controls" where
  "handleMuteEvent detail s = (if detail = Unserializable then s else s\<lparr> isMuted := True \<rparr>)"

definition handleUnmuteEvent :: "payload \<Rightarrow> phone_controls \<Rightarrow> phone_controls" where
  "handleUnmuteEvent detail s = (if detail = Unserializable then s else s\<lparr> isMuted := False \<rparr>)"

definition handleCallStartedEvent :: "payload \<Rightarrow> phone_controls \<Rightarrow> phone_controls" where
  "handleCallStartedEvent detail s =
     (if detail = Unserializable then s
      else s\<lparr> callStatus := Incoming, isCallActive := True \<rparr>)"

definition handleCallConnectedEvent :: "payload \<Rightarrow> int \<Rightarrow> phone_controls \<Rightarrow> phone_controls" where
  "handleCallConnectedEvent detail now s =
     (if detail = Unserializable then s else handleCallStarted now s)"

definition handleCallEndedEvent ::
  "payload \<Rightarrow> int \<Rightarrow> int \<Rightarrow> phone_controls \<Rightarrow> phone_controls" where
  "handleCallEndedEvent detail endedAt holdEnd s =
     (if detail = Unserializable then s else finalizeCall endedAt holdEnd s)"

text \<open>
  The end-call button. \<^verbatim>\<open>toolkitApi.endCall()\<close> is the toolkit's code; what matters to the
  component is which of its four branches the call takes.
\<close>

datatype end_call_result = No_Toolkit | Throws | Returns_Promise | Returns_Plain

definition handleEndCall ::
  "end_call_result \<Rightarrow> int \<Rightarrow> int \<Rightarrow> phone_controls \<Rightarrow> phone_controls" where
  "handleEndCall res endedAt holdEnd s =
     (if res = Returns_Plain then finalizeCall endedAt holdEnd s else s)"

subsection \<open>The public methods\<close>

definition resetTimer :: "phone_controls \<Rightarrow> phone_controls" where
  "resetTimer s = resetHoldTimer s"

definition getCurrentHoldTime :: "int \<Rightarrow> phone_controls \<Rightarrow> int" where
  "getCurrentHoldTime now s =
     (case currentHoldStart s of
        None \<Rightarrow> 0
      | Some started \<Rightarrow> if \<not> isOnHold s \<or> started = 0 then 0 else (now - started) div 1000)"

definition getTotalHoldTime :: "int \<Rightarrow> phone_controls \<Rightarrow> int" where
  "getTotalHoldTime now s = totalHoldTime s + getCurrentHoldTime now s"

subsection \<open>Everything that can happen to the component\<close>

text \<open>
  The eight events the component subscribes to, by the names it registers them under;
  \<^verbatim>\<open>callended\<close> and \<^verbatim>\<open>hangup\<close> share a handler.
\<close>

datatype raw_event =
  Hold | Resume | Mute | Unmute | Callstarted | Callconnected | Callended | Hangup

fun dispatch ::
  "raw_event \<Rightarrow> payload \<Rightarrow> int \<Rightarrow> int \<Rightarrow> phone_controls \<Rightarrow> phone_controls" where
  "dispatch Hold detail now now2 s = handleHoldEvent detail now s"
| "dispatch Resume detail now now2 s = handleResumeEvent detail now s"
| "dispatch Mute detail now now2 s = handleMuteEvent detail s"
| "dispatch Unmute detail now now2 s = handleUnmuteEvent detail s"
| "dispatch Callstarted detail now now2 s = handleCallStartedEvent detail s"
| "dispatch Callconnected detail now now2 s = handleCallConnectedEvent detail now s"
| "dispatch Callended detail now now2 s = handleCallEndedEvent detail now now2 s"
| "dispatch Hangup detail now now2 s = handleCallEndedEvent detail now now2 s"

text \<open>
  A stimulus is one run-to-completion invocation from outside: a toolkit event with its
  detail and the first and the second value the clock returns while it is handled (only
  the end of a call reads the clock a second time; the other handlers ignore the second
  value), a tick of one of the three intervals (which fires
  only while its interval is registered), the wire adapter delivering the record, the
  end-call button, the public reset, and the two lifecycle callbacks.
\<close>

datatype stimulus =
    Toolkit_Event raw_event payload int int
  | Duration_Tick int
  | Hold_Tick int
  | Poll_Tick bool
  | Record_Loaded voice_call_fields bool
  | End_Call_Click end_call_result int int
  | Reset_Timer
  | Connected_Callback
  | Disconnected_Callback

fun step :: "stimulus \<Rightarrow> phone_controls \<Rightarrow> phone_controls" where
  "step (Toolkit_Event e detail now now2) s = dispatch e detail now now2 s"
| "step (Duration_Tick now) s = (if callDurationInterval s then updateCallDuration now s else s)"
| "step (Hold_Tick now) s = (if holdTimerInterval s then updateHoldDisplayTimer now s else s)"
| "step (Poll_Tick found) s =
     (if toolkitCheckInterval s then checkAndSetupToolkitListeners found s else s)"
| "step (Record_Loaded r found) s = setupToolkitEventListeners found (processVoiceCallData r s)"
| "step (End_Call_Click res now now2) s = handleEndCall res now now2 s"
| "step Reset_Timer s = resetTimer s"
| "step Connected_Callback s = startToolkitPolling s"
| "step Disconnected_Callback s = stopToolkitPolling (cleanupTimers s)"

fun run :: "stimulus list \<Rightarrow> phone_controls \<Rightarrow> phone_controls" where
  "run [] s = s"
| "run (x # xs) s = run xs (step x s)"

fun is_call_connected :: "stimulus \<Rightarrow> bool" where
  "is_call_connected (Toolkit_Event Callconnected detail now now2) = True"
| "is_call_connected x = False"

fun is_call_started :: "stimulus \<Rightarrow> bool" where
  "is_call_started (Toolkit_Event Callstarted detail now now2) = True"
| "is_call_started x = False"

subsection \<open>The bookkeeping of the hold sessions\<close>

text \<open>
  What the hold timer maintains: the total is the sum of the recorded durations, and the
  recorded sessions are numbered from one upwards.
\<close>

definition hold_accounting_ok :: "phone_controls \<Rightarrow> bool" where
  "hold_accounting_ok s =
     (totalHoldTime s = sum_list (map duration (holdSessions s)) \<and>
      map sessionNumber (holdSessions s) = map Suc [0..<length (holdSessions s)])"

subsection \<open>The end of a call in the order the specification gives\<close>

text \<open>
  The specification describes the end of a call that is on hold in another order than
  \<open>finalizeCall\<close> has: the open hold session is closed first, and the call is marked
  ended, its end recorded and telephony marked unavailable after that. Written with the
  methods of the component, the clock being read in that order: \<open>first\<close> by the hold
  end, \<open>second\<close> for the end of the call.
\<close>

definition close_hold_then_finalize :: "int \<Rightarrow> int \<Rightarrow> phone_controls \<Rightarrow> phone_controls" where
  "close_hold_then_finalize first second s =
     (let s1 = (if isOnHold s then endHoldTimer first s else s);
          s2 = s1\<lparr> isCallActive := False, callStatus := Ended,
                    callEndDateTime := Some second, telephonyAvailable := False \<rparr>
      in cleanupTimers s2)"

subsection \<open>Calls used in the examples\<close>

text \<open>
  The component is attached and the poll finds the toolkit; the call starts at second 1
  and is connected at second 2.
\<close>

definition connected_call :: "stimulus list" where
  "connected_call =
     [Connected_Callback, Poll_Tick True,
      Toolkit_Event Callstarted Serializable 1000 1000,
      Toolkit_Event Callconnected Serializable 2000 2000]"

text \<open>The connected call is put on hold at second 3.\<close>

definition held_call :: "stimulus list" where
  "held_call = connected_call @ [Toolkit_Event Hold Serializable 3000 3000]"

text \<open>It is resumed at second 48 and put on hold again at second 50.\<close>

definition second_hold_call :: "stimulus list" where
  "second_hold_call =
     held_call @
     [Toolkit_Event Resume Serializable 48000 48000,
      Toolkit_Event Hold Serializable 50000 50000]"

text \<open>
  The scenario of the specification: started, connected, on hold for 45 seconds, resumed,
  ended at second 60.
\<close>

definition example_call :: "stimulus list" where
  "example_call =
     held_call @
     [Toolkit_Event Resume Serializable 48000 48000,
      Toolkit_Event Callended Serializable 60000 60001]"

text \<open>
  Three hold sessions, the toolkit announcing each change of the hold by \<^verbatim>\<open>resume\<close>; a
  duplicate \<^verbatim>\<open>hold\<close>, a tick and an event with a cyclic detail in between; the caller hangs
  up during the third hold.
\<close>

definition three_holds_call :: "stimulus list" where
  "three_holds_call =
     held_call @
     [Toolkit_Event Hold Serializable 5000 5000,
      Toolkit_Event Resume Serializable 48000 48000,
      Toolkit_Event Resume Serializable 50000 50000,
      Hold_Tick 51000,
      Toolkit_Event Resume Serializable 62500 62500,
      Toolkit_Event Resume Unserializable 63000 63000,
      Toolkit_Event Hold Serializable 70000 70000,
      Toolkit_Event Hangup Serializable 199990 200000]"

text \<open>
  A call that rings and is never connected: the record arrives with a call start time of
  its own, the toolkit reports the start three times, and timers tick.
\<close>

definition ringing_call :: "stimulus list" where
  "ringing_call =
     [Connected_Callback,
      Record_Loaded \<lparr> FromPhoneNumber = Some ''(415) 555-1234'', ToPhoneNumber = None,
                      CallType = Some ''Inbound'', CallStartDateTime = Some 500,
                      CallEndDateTime = None \<rparr> True,
      Toolkit_Event Callstarted Serializable 1000 1000,
      Toolkit_Event Callstarted Serializable 1500 1500,
      Duration_Tick 2000,
      Toolkit_Event Callstarted Serializable 2500 2500,
      Toolkit_Event Hold Serializable 3000 3000,
      Hold_Tick 4000]"

section \<open>Properties\<close>

lemmas method_defs =
  processVoiceCallData_def startCallDurationTimer_def updateCallDuration_def
  startHoldTimer_def endHoldTimer_def updateHoldDisplayTimer_def resetHoldTimer_def
  stopToolkitPolling_def startToolkitPolling_def setupToolkitEventListeners_def
  checkAndSetupToolkitListeners_def cleanupTimers_def handleCallStarted_def finalizeCall_def
  handleHoldEvent_def handleResumeEvent_def handleMuteEvent_def handleUnmuteEvent_def
  handleCallStartedEvent_def handleCallConnectedEvent_def handleCallEndedEvent_def
  handleEndCall_def resetTimer_def

lemmas format_defs =
  formatTime_def getHoldColorClass_def padStart2_def toString.simps digit_char_def

lemma run_append: "run (xs @ ys) s = run ys (run xs s)"
  by (induction xs arbitrary: s) simp_all

subsection \<open>The states the example calls reach\<close>

lemma connected_call_state:
  "run connected_call initial =
   \<lparr>isCallActive = True, callStatus = Connected, isOnHold = False,
    isMuted = False, callDuration = 0, formattedCallDuration = ''00:00:00'',
    callStartTime = Some 2000, callDurationInterval = True,
    totalHoldTime = 0, currentHoldStart = None, holdSessions = [],
    formattedTotalHoldTime = ''00:00'',
    holdColorClass = ''hold-timer-green'', holdTimerInterval = False,
    phoneNumber = [], callDirection = [], displayPhoneNumber = [],
    telephonyAvailable = True, toolkitApiAvailable = True,
    eventListenersSetup = True, toolkitCheckInterval = False,
    callEndDateTime = None\<rparr>"
  by (simp add: connected_call_def initial_def method_defs Let_def)

lemma held_call_state:
  "run held_call initial =
   \<lparr>isCallActive = True, callStatus = Connected, isOnHold = True,
    isMuted = False, callDuration = 0, formattedCallDuration = ''00:00:00'',
    callStartTime = Some 2000, callDurationInterval = True,
    totalHoldTime = 0, currentHoldStart = Some 3000, holdSessions = [],
    formattedTotalHoldTime = ''00:00'',
    holdColorClass = ''hold-timer-green'', holdTimerInterval = True,
    phoneNumber = [], callDirection = [], displayPhoneNumber = [],
    telephonyAvailable = True, toolkitApiAvailable = True,
    eventListenersSetup = True, toolkitCheckInterval = False,
    callEndDateTime = None\<rparr>"
  by (simp add: held_call_def run_append connected_call_state method_defs)

lemma second_hold_call_state:
  "run second_hold_call initial =
   \<lparr>isCallActive = True, callStatus = Connected, isOnHold = True,
    isMuted = False, callDuration = 0, formattedCallDuration = ''00:00:00'',
    callStartTime = Some 2000, callDurationInterval = True,
    totalHoldTime = 45, currentHoldStart = Some 50000,
    holdSessions =
      [\<lparr>sessionNumber = 1, startTime = 3000, endTime = 48000, duration = 45\<rparr>],
    formattedTotalHoldTime = ''00:45'',
    holdColorClass = ''hold-timer-yellow'', holdTimerInterval = True,
    phoneNumber = [], callDirection = [], displayPhoneNumber = [],
    telephonyAvailable = True, toolkitApiAvailable = True,
    eventListenersSetup = True, toolkitCheckInterval = False,
    callEndDateTime = None\<rparr>"
  by (simp add: second_hold_call_def run_append held_call_state method_defs Let_def format_defs)

lemma example_call_state:
  "run example_call initial =
   \<lparr>isCallActive = False, callStatus = Ended, isOnHold = False,
    isMuted = False, callDuration = 0, formattedCallDuration = ''00:00:00'',
    callStartTime = Some 2000, callDurationInterval = False,
    totalHoldTime = 45, currentHoldStart = None,
    holdSessions =
      [\<lparr>sessionNumber = 1, startTime = 3000, endTime = 48000, duration = 45\<rparr>],
    formattedTotalHoldTime = ''00:45'',
    holdColorClass = ''hold-timer-yellow'', holdTimerInterval = False,
    phoneNumber = [], callDirection = [], displayPhoneNumber = [],
    telephonyAvailable = False, toolkitApiAvailable = True,
    eventListenersSetup = True, toolkitCheckInterval = False,
    callEndDateTime = Some 60000\<rparr>"
  by (simp add: example_call_def run_append held_call_state method_defs Let_def format_defs)

lemma three_holds_call_sessions:
  "holdSessions (run three_holds_call initial) =
     [\<lparr> sessionNumber = 1, startTime = 3000, endTime = 48000, duration = 45 \<rparr>,
      \<lparr> sessionNumber = 2, startTime = 50000, endTime = 62500, duration = 12 \<rparr>,
      \<lparr> sessionNumber = 3, startTime = 70000, endTime = 200000, duration = 130 \<rparr>]"
  by (simp add: three_holds_call_def run_append held_call_state method_defs Let_def format_defs)

subsection \<open>The status after the call has ended\<close>

lemma step_keeps_ended:
  assumes "callStatus s = Ended" "\<not> is_call_started x" "\<not> is_call_connected x"
  shows "callStatus (step x s) = Ended"
proof (cases x)
  case (Toolkit_Event e detail now now2)
  with assms show ?thesis
    by (cases e) (simp_all add: method_defs Let_def split: option.splits)
qed (use assms in \<open>simp_all add: method_defs Let_def split: option.splits\<close>)

lemma run_keeps_ended:
  "callStatus s = Ended \<Longrightarrow> \<forall>x\<in>set xs. \<not> is_call_started x \<and> \<not> is_call_connected x \<Longrightarrow>
   callStatus (run xs s) = Ended"
  by (induction xs arbitrary: s) (simp_all add: step_keeps_ended)

text \<open>
  C1, as the code has it. Once \<open>callStatus\<close> is \<open>Ended\<close>, it stays \<open>Ended\<close> under every
  sequence of stimuli that holds no \<^verbatim>\<open>callstarted\<close> and no \<^verbatim>\<open>callconnected\<close> event:
  hold, resume, mute, unmute, a further call end, the ticks, the record, the end-call
  button, the public reset and the lifecycle callbacks. The two remaining handlers assign
  the status without looking at it: a \<^verbatim>\<open>callstarted\<close> event sets it to \<open>Incoming\<close> and a
  \<^verbatim>\<open>callconnected\<close> event sets it to \<open>Connected\<close>, unless the handler stops at a detail
  it cannot serialise.
\<close>

theorem ended_status_after_stimuli:
  "callStatus s = Ended \<Longrightarrow>
   ((\<forall>x\<in>set xs. \<not> is_call_started x \<and> \<not> is_call_connected x)
       \<longrightarrow> callStatus (run xs s) = Ended) \<and>
   callStatus (step (Toolkit_Event Callstarted Unserializable now now2) s) = Ended \<and>
   callStatus (step (Toolkit_Event Callconnected Unserializable now now2) s) = Ended \<and>
   callStatus (step (Toolkit_Event Callstarted Serializable now now2) s) = Incoming \<and>
   callStatus (step (Toolkit_Event Callconnected Serializable now now2) s) = Connected"
  by (simp add: run_keeps_ended handleCallStartedEvent_def handleCallConnectedEvent_def
      handleCallStarted_def startCallDurationTimer_def)

text \<open>
  After the example call has ended: a hold, a resume, a mute, an unmute, a hangup and a
  tick leave the status \<open>Ended\<close>; a \<^verbatim>\<open>callconnected\<close> event makes it \<open>Connected\<close>.
\<close>

theorem ended_status_after_stimuli_witness:
  "callStatus (run example_call initial) = Ended \<and>
   callStatus (run [Toolkit_Event Hold Serializable 61000 61000, Toolkit_Event Resume Serializable 62000 62000,
                    Toolkit_Event Mute Serializable 63000 63000, Toolkit_Event Unmute Serializable 64000 64000,
                    Toolkit_Event Hangup Serializable 65000 65000, Duration_Tick 66000]
                 (run example_call initial)) = Ended \<and>
   callStatus (step (Toolkit_Event Callconnected Serializable 61000 61000) (run example_call initial))
     = Connected"
proof -
  have ended: "callStatus (run example_call initial) = Ended"
    by (simp add: example_call_state)
  show ?thesis
    using ended
      ended_status_after_stimuli [OF ended,
        of "[Toolkit_Event Hold Serializable 61000 61000, Toolkit_Event Resume Serializable 62000 62000,
             Toolkit_Event Mute Serializable 63000 63000, Toolkit_Event Unmute Serializable 64000 64000,
             Toolkit_Event Hangup Serializable 65000 65000, Duration_Tick 66000]" 61000 61000]
    by simp
qed

text \<open>
  C1 as it is stated fails: the example call has ended, and the \<^verbatim>\<open>callstarted\<close> event that
  follows it changes the status to \<open>Incoming\<close>.
\<close>

theorem ended_is_reopened_counterexample:
  "callStatus (run example_call initial) = Ended \<and>
   callStatus (step (Toolkit_Event Callstarted Serializable 61000 61000) (run example_call initial))
     = Incoming"
  by (simp add: example_call_state method_defs)

subsection \<open>The anchor of the call duration\<close>

lemma step_keeps_anchor:
  "\<not> is_call_connected x \<Longrightarrow> callStartTime (step x s) = callStartTime s"
proof (cases x)
  case (Toolkit_Event e detail now now2)
  assume "\<not> is_call_connected x"
  with Toolkit_Event show ?thesis
    by (cases e) (simp_all add: method_defs Let_def split: option.splits)
qed (simp_all add: method_defs Let_def split: option.splits)

lemma step_duration_frozen:
  "\<not> (isCallActive s \<and> callStartTime s \<noteq> None) \<Longrightarrow>
   callDuration (step x s) = callDuration s \<and>
   (formattedCallDuration (step x s) = formattedCallDuration s \<or>
    formattedCallDuration (step x s) = ''00:00:00'')"
proof (cases x)
  case (Toolkit_Event e detail now now2)
  then show ?thesis
    by (cases e) (simp_all add: method_defs Let_def split: option.splits)
qed (auto simp add: method_defs Let_def split: option.splits)

text \<open>
  C2, as the code has it. Every \<^verbatim>\<open>callconnected\<close> event that is handled sets
  \<open>callStartTime\<close> to the time it is handled, whatever the anchor was before, and no other
  stimulus changes the anchor. The call duration advances only while the call is active
  and the anchor is set: in every other state no stimulus changes \<open>callDuration\<close>, and
  the displayed text stays as it is or becomes \<^verbatim>\<open>00:00:00\<close>; in an active state with the
  anchor set, \<open>updateCallDuration\<close> computes the whole seconds since the anchor.
\<close>

theorem anchor_set_by_each_connect:
  "callStartTime (step (Toolkit_Event Callconnected Serializable now now2) s) = Some now \<and>
   (\<not> is_call_connected x \<longrightarrow> callStartTime (step x s) = callStartTime s) \<and>
   (\<not> (isCallActive s \<and> callStartTime s \<noteq> None) \<longrightarrow>
      callDuration (step x s) = callDuration s \<and>
      (formattedCallDuration (step x s) = formattedCallDuration s \<or>
       formattedCallDuration (step x s) = ''00:00:00'')) \<and>
   (isCallActive s \<and> callStartTime s = Some started \<longrightarrow>
      callDuration (updateCallDuration now s) = (now - started) div 1000)"
  using step_keeps_anchor [of x s] step_duration_frozen [of s x]
  by (simp add: handleCallConnectedEvent_def handleCallStarted_def startCallDurationTimer_def
      updateCallDuration_def)

text \<open>
  On the connected call: a second \<^verbatim>\<open>callconnected\<close> at second 9 moves the anchor to
  second 9, a hold leaves it at second 2, and the tick at second 9 computes 7 seconds.
  On the fresh component a tick leaves the duration 0.
\<close>

theorem anchor_set_by_each_connect_witness:
  "callStartTime (step (Toolkit_Event Callconnected Serializable 9000 9000) (run connected_call initial))
     = Some 9000 \<and>
   callStartTime (step (Toolkit_Event Hold Serializable 9000 9000) (run connected_call initial))
     = Some 2000 \<and>
   callDuration (step (Duration_Tick 9000) initial) = 0 \<and>
   callDuration (updateCallDuration 9000 (run connected_call initial)) = 7"
proof -
  have a: "callStartTime (run connected_call initial) = Some 2000"
    and b: "isCallActive (run connected_call initial)"
    by (simp_all add: connected_call_state)
  have c: "\<not> (isCallActive initial \<and> callStartTime initial \<noteq> None)"
    and d: "callDuration initial = 0"
    by (simp_all add: initial_def)
  show ?thesis
    using a b c d
      anchor_set_by_each_connect [of 9000 9000 "run connected_call initial"
        "Toolkit_Event Hold Serializable 9000 9000" 2000]
      anchor_set_by_each_connect [of 9000 9000 initial "Duration_Tick 9000" 0]
    by simp
qed

text \<open>
  C2 as it is stated fails: the first \<^verbatim>\<open>callconnected\<close> set the anchor to second 2, and a
  second one in the same session sets it to second 9.
\<close>

theorem anchor_overwritten_counterexample:
  "callStartTime (run connected_call initial) = Some 2000 \<and>
   callStartTime (step (Toolkit_Event Callconnected Serializable 9000 9000) (run connected_call initial))
     = Some 9000"
  by (simp add: connected_call_state method_defs)

subsection \<open>Ending a call that is on hold\<close>

text \<open>
  C3, as the code has it. When the call is on hold with the hold started at \<open>started\<close>
  (a time other than the epoch itself, which \<^verbatim>\<open>!this.currentHoldStart\<close> takes for no
  start at all), \<open>finalizeCall\<close> first marks the call: the status is \<open>Ended\<close>, the call
  is inactive, the end of the call is the clock as read then (\<open>endedAt\<close>) and telephony
  is unavailable. It closes the open hold after that, in the state so marked, with the
  clock as read at the closing (\<open>holdEnd\<close>): the hold is recorded as a session from
  \<open>started\<close> to \<open>holdEnd\<close>, and its whole seconds are added to the total. Last, no
  interval is registered any more. The theorem gives the state that is left, field by
  field, for any two values of the clock. The call duration and its text are left as
  last computed, and later ticks change nothing. The handled \<^verbatim>\<open>callended\<close> and
  \<^verbatim>\<open>hangup\<close> events do just this.
\<close>

theorem finalizeCall_while_on_hold:
  "isOnHold s \<Longrightarrow> currentHoldStart s = Some started \<Longrightarrow> started \<noteq> 0 \<Longrightarrow>
   finalizeCall endedAt holdEnd s =
     s\<lparr> isCallActive := False, callStatus := Ended, callEndDateTime := Some endedAt,
        telephonyAvailable := False,
        totalHoldTime := totalHoldTime s + (holdEnd - started) div 1000,
        holdSessions := holdSessions s @
          [\<lparr> sessionNumber = length (holdSessions s) + 1, startTime = started,
             endTime = holdEnd, duration = (holdEnd - started) div 1000 \<rparr>],
        isOnHold := False, currentHoldStart := None,
        formattedTotalHoldTime :=
          formatTime (totalHoldTime s + (holdEnd - started) div 1000) False,
        holdColorClass := getHoldColorClass (totalHoldTime s + (holdEnd - started) div 1000),
        callDurationInterval := False, holdTimerInterval := False,
        toolkitCheckInterval := False \<rparr> \<and>
   finalizeCall endedAt holdEnd s =
     cleanupTimers
       (endHoldTimer holdEnd
          (s\<lparr> isCallActive := False, callStatus := Ended, callEndDateTime := Some endedAt,
              telephonyAvailable := False \<rparr>)) \<and>
   step (Toolkit_Event Callended Serializable endedAt holdEnd) s = finalizeCall endedAt holdEnd s \<and>
   step (Toolkit_Event Hangup Serializable endedAt holdEnd) s = finalizeCall endedAt holdEnd s \<and>
   callDuration (finalizeCall endedAt holdEnd s) = callDuration s \<and>
   formattedCallDuration (finalizeCall endedAt holdEnd s) = formattedCallDuration s \<and>
   step (Duration_Tick later) (finalizeCall endedAt holdEnd s) = finalizeCall endedAt holdEnd s \<and>
   step (Hold_Tick later) (finalizeCall endedAt holdEnd s) = finalizeCall endedAt holdEnd s"
  by (simp add: finalizeCall_def endHoldTimer_def cleanupTimers_def stopToolkitPolling_def
      handleCallEndedEvent_def Let_def)

text \<open>
  The call held since second 3 is ended; the clock reads 59999 for the end of the call
  and 60000 at the closing of the hold. The end of the call is 59999, and the one
  session ends at 60000 and lasts 57 seconds.
\<close>

theorem finalizeCall_while_on_hold_witness:
  "isOnHold (run held_call initial) \<and>
   currentHoldStart (run held_call initial) = Some 3000 \<and>
   callStatus (finalizeCall 59999 60000 (run held_call initial)) = Ended \<and>
   callEndDateTime (finalizeCall 59999 60000 (run held_call initial)) = Some 59999 \<and>
   holdSessions (finalizeCall 59999 60000 (run held_call initial)) =
     [\<lparr> sessionNumber = 1, startTime = 3000, endTime = 60000, duration = 57 \<rparr>] \<and>
   totalHoldTime (finalizeCall 59999 60000 (run held_call initial)) = 57 \<and>
   \<not> isOnHold (finalizeCall 59999 60000 (run held_call initial)) \<and>
   \<not> telephonyAvailable (finalizeCall 59999 60000 (run held_call initial)) \<and>
   \<not> callDurationInterval (finalizeCall 59999 60000 (run held_call initial)) \<and>
   \<not> holdTimerInterval (finalizeCall 59999 60000 (run held_call initial))"
proof -
  have a: "isOnHold (run held_call initial)"
    and b: "currentHoldStart (run held_call initial) = Some 3000"
    and c: "holdSessions (run held_call initial) = []"
    and d: "totalHoldTime (run held_call initial) = 0"
    by (simp_all add: held_call_state)
  have e: "(3000::int) \<noteq> 0" by simp
  have f: "finalizeCall 59999 60000 (run held_call initial) =
      (run held_call initial)
       \<lparr> isCallActive := False, callStatus := Ended, callEndDateTime := Some 59999,
         telephonyAvailable := False,
         totalHoldTime := 57,
         holdSessions :=
           [\<lparr> sessionNumber = 1, startTime = 3000, endTime = 60000, duration = 57 \<rparr>],
         isOnHold := False, currentHoldStart := None,
         formattedTotalHoldTime := formatTime 57 False,
         holdColorClass := getHoldColorClass 57,
         callDurationInterval := False, holdTimerInterval := False,
         toolkitCheckInterval := False \<rparr>"
    using finalizeCall_while_on_hold [OF a b e, of 59999 60000] c d
    by simp
  show ?thesis
    using a b by (simp add: f)
qed

text \<open>
  C3 as it is stated fails. On the call held since second 3, with the clock reading 59999
  and then 60000 while the \<^verbatim>\<open>callended\<close> event is handled, the session's end (60000)
  is not the recorded end of the call (59999), and the state is not the one that closing
  the hold first and marking the call ended second leaves: there the session ends at
  59999, lasts 56 seconds, and the call ends at 60000.
\<close>

theorem hold_closed_after_end_counterexample:
  "callEndDateTime
     (step (Toolkit_Event Callended Serializable 59999 60000) (run held_call initial))
     = Some 59999 \<and>
   holdSessions
     (step (Toolkit_Event Callended Serializable 59999 60000) (run held_call initial))
     = [\<lparr> sessionNumber = 1, startTime = 3000, endTime = 60000, duration = 57 \<rparr>] \<and>
   callEndDateTime (close_hold_then_finalize 59999 60000 (run held_call initial))
     = Some 60000 \<and>
   holdSessions (close_hold_then_finalize 59999 60000 (run held_call initial))
     = [\<lparr> sessionNumber = 1, startTime = 3000, endTime = 59999, duration = 56 \<rparr>] \<and>
   step (Toolkit_Event Callended Serializable 59999 60000) (run held_call initial)
     \<noteq> close_hold_then_finalize 59999 60000 (run held_call initial)"
proof -
  have code: "holdSessions
      (step (Toolkit_Event Callended Serializable 59999 60000) (run held_call initial))
      = [\<lparr> sessionNumber = 1, startTime = 3000, endTime = 60000, duration = 57 \<rparr>]"
    and code_end: "callEndDateTime
      (step (Toolkit_Event Callended Serializable 59999 60000) (run held_call initial))
      = Some 59999"
    by (simp_all add: held_call_state handleCallEndedEvent_def finalizeCall_def
        endHoldTimer_def cleanupTimers_def stopToolkitPolling_def Let_def)
  have spec: "holdSessions (close_hold_then_finalize 59999 60000 (run held_call initial))
      = [\<lparr> sessionNumber = 1, startTime = 3000, endTime = 59999, duration = 56 \<rparr>]"
    and spec_end: "callEndDateTime (close_hold_then_finalize 59999 60000 (run held_call initial))
      = Some 60000"
    by (simp_all add: held_call_state close_hold_then_finalize_def endHoldTimer_def
        cleanupTimers_def stopToolkitPolling_def Let_def)
  have "step (Toolkit_Event Callended Serializable 59999 60000) (run held_call initial)
      \<noteq> close_hold_then_finalize 59999 60000 (run held_call initial)"
  proof
    assume "step (Toolkit_Event Callended Serializable 59999 60000) (run held_call initial)
      = close_hold_then_finalize 59999 60000 (run held_call initial)"
    then have "callEndDateTime
        (step (Toolkit_Event Callended Serializable 59999 60000) (run held_call initial))
      = callEndDateTime (close_hold_then_finalize 59999 60000 (run held_call initial))"
      by (rule arg_cong)
    with code_end spec_end show False by simp
  qed
  with code code_end spec spec_end show ?thesis by simp
qed

subsection \<open>The resume event\<close>

text \<open>
  C4. What a handled \<^verbatim>\<open>resume\<close> event does depends on the hold flag alone. With the flag
  set it is \<open>endHoldTimer\<close>: the open hold session, started at \<open>started\<close>, is closed at
  \<open>now\<close>, recorded and added to the total. With the flag clear it is what a \<^verbatim>\<open>hold\<close>
  event does: a hold session is opened at \<open>now\<close>, and the recorded sessions and the total
  stay as they are. A \<^verbatim>\<open>resume\<close> event whose detail cannot be serialised is logged and
  changes nothing.
\<close>

theorem resume_decided_by_hold_flag:
  "(isOnHold s \<longrightarrow> handleResumeEvent Serializable now s = endHoldTimer now s) \<and>
   (isOnHold s \<and> currentHoldStart s = Some started \<and> started \<noteq> 0 \<longrightarrow>
      \<not> isOnHold (handleResumeEvent Serializable now s) \<and>
      currentHoldStart (handleResumeEvent Serializable now s) = None \<and>
      holdSessions (handleResumeEvent Serializable now s) =
        holdSessions s @
          [\<lparr> sessionNumber = length (holdSessions s) + 1, startTime = started,
             endTime = now, duration = (now - started) div 1000 \<rparr>] \<and>
      totalHoldTime (handleResumeEvent Serializable now s) =
        totalHoldTime s + (now - started) div 1000) \<and>
   (\<not> isOnHold s \<longrightarrow>
      handleResumeEvent Serializable now s = handleHoldEvent Serializable now s \<and>
      isOnHold (handleResumeEvent Serializable now s) \<and>
      currentHoldStart (handleResumeEvent Serializable now s) = Some now \<and>
      holdSessions (handleResumeEvent Serializable now s) = holdSessions s \<and>
      totalHoldTime (handleResumeEvent Serializable now s) = totalHoldTime s) \<and>
   handleResumeEvent Unserializable now s = s"
  by (simp add: handleResumeEvent_def handleHoldEvent_def endHoldTimer_def startHoldTimer_def
      Let_def)

text \<open>
  On the call held since second 3, a \<^verbatim>\<open>resume\<close> at second 48 records a session of 45
  seconds; on the connected call that is not on hold, a \<^verbatim>\<open>resume\<close> at second 3 opens a
  hold.
\<close>

theorem resume_decided_by_hold_flag_witness:
  "isOnHold (run held_call initial) \<and>
   currentHoldStart (run held_call initial) = Some 3000 \<and>
   holdSessions (handleResumeEvent Serializable 48000 (run held_call initial)) =
     [\<lparr> sessionNumber = 1, startTime = 3000, endTime = 48000, duration = 45 \<rparr>] \<and>
   \<not> isOnHold (handleResumeEvent Serializable 48000 (run held_call initial)) \<and>
   \<not> isOnHold (run connected_call initial) \<and>
   isOnHold (handleResumeEvent Serializable 3000 (run connected_call initial)) \<and>
   currentHoldStart (handleResumeEvent Serializable 3000 (run connected_call initial)) = Some 3000 \<and>
   holdSessions (handleResumeEvent Serializable 3000 (run connected_call initial)) = []"
proof -
  have a: "isOnHold (run held_call initial)"
    and b: "currentHoldStart (run held_call initial) = Some 3000"
    and c: "holdSessions (run held_call initial) = []"
    by (simp_all add: held_call_state)
  have d: "\<not> isOnHold (run connected_call initial)"
    and e: "holdSessions (run connected_call initial) = []"
    by (simp_all add: connected_call_state)
  show ?thesis
    using a b c d e
      resume_decided_by_hold_flag [of "run held_call initial" 48000 3000]
      resume_decided_by_hold_flag [of "run connected_call initial" 3000 0]
    by auto
qed

subsection \<open>The call duration before the call is connected\<close>

lemma step_before_connect:
  assumes "\<not> is_call_connected x"
    and "callStartTime s = None \<and> callDuration s = 0 \<and> formattedCallDuration s = ''00:00:00''"
  shows "callStartTime (step x s) = None \<and> callDuration (step x s) = 0 \<and>
         formattedCallDuration (step x s) = ''00:00:00''"
proof (cases x)
  case (Toolkit_Event e detail now now2)
  with assms show ?thesis
    by (cases e) (simp_all add: method_defs Let_def split: option.splits)
qed (use assms in \<open>simp_all add: method_defs Let_def split: option.splits\<close>)

lemma run_before_connect:
  "\<forall>x\<in>set xs. \<not> is_call_connected x \<Longrightarrow>
   callStartTime s = None \<and> callDuration s = 0 \<and> formattedCallDuration s = ''00:00:00'' \<Longrightarrow>
   callStartTime (run xs s) = None \<and> callDuration (run xs s) = 0 \<and>
   formattedCallDuration (run xs s) = ''00:00:00''"
proof (induction xs arbitrary: s)
  case Nil
  then show ?case by simp
next
  case (Cons x xs)
  from Cons.prems have "\<not> is_call_connected x" by simp
  from step_before_connect [OF this Cons.prems(2)] Cons.prems(1) Cons.IH [of "step x s"]
  show ?case by simp
qed

text \<open>
  C5. After any sequence of stimuli without a \<^verbatim>\<open>callconnected\<close> event, whatever else it
  holds (any number of \<^verbatim>\<open>callstarted\<close> events, ticks, the record with its own call start
  time), the fresh component has no anchor, its call duration is 0 and the text shown is
  \<^verbatim>\<open>00:00:00\<close>, and a further \<open>updateCallDuration\<close> at any time keeps both. Loading the
  record never touches the anchor, the duration or its text: the record's
  \<open>CallStartDateTime\<close> is not read.
\<close>

theorem duration_zero_before_connect:
  "\<forall>x\<in>set xs. \<not> is_call_connected x \<Longrightarrow>
   callStartTime (run xs initial) = None \<and>
   callDuration (run xs initial) = 0 \<and>
   formattedCallDuration (run xs initial) = ''00:00:00'' \<and>
   callDuration (updateCallDuration now (run xs initial)) = 0 \<and>
   formattedCallDuration (updateCallDuration now (run xs initial)) = ''00:00:00'' \<and>
   callStartTime (processVoiceCallData r s) = callStartTime s \<and>
   callDuration (processVoiceCallData r s) = callDuration s \<and>
   formattedCallDuration (processVoiceCallData r s) = formattedCallDuration s"
proof -
  assume "\<forall>x\<in>set xs. \<not> is_call_connected x"
  then have "callStartTime (run xs initial) = None \<and> callDuration (run xs initial) = 0 \<and>
      formattedCallDuration (run xs initial) = ''00:00:00''"
    by (rule run_before_connect) (simp add: initial_def)
  then show ?thesis
    by (simp add: updateCallDuration_def processVoiceCallData_def Let_def)
qed

text \<open>
  The ringing call: three \<^verbatim>\<open>callstarted\<close> events, the record loaded, a hold and ticks, no
  \<^verbatim>\<open>callconnected\<close>. The call is active and \<open>Incoming\<close>, and its duration is 0.
\<close>

theorem duration_zero_before_connect_witness:
  "\<not> list_ex is_call_connected ringing_call \<and>
   isCallActive (run ringing_call initial) \<and>
   callStatus (run ringing_call initial) = Incoming \<and>
   displayPhoneNumber (run ringing_call initial) = ''+1 (415) 555-1234'' \<and>
   callDuration (run ringing_call initial) = 0 \<and>
   formattedCallDuration (run ringing_call initial) = ''00:00:00'' \<and>
   callDuration (updateCallDuration 9000 (run ringing_call initial)) = 0"
proof -
  have a: "\<forall>x\<in>set ringing_call. \<not> is_call_connected x"
    by (simp add: ringing_call_def)
  have b: "isCallActive (run ringing_call initial) \<and>
    callStatus (run ringing_call initial) = Incoming \<and>
    displayPhoneNumber (run ringing_call initial) = ''+1 (415) 555-1234''"
    by (simp add: ringing_call_def initial_def method_defs Let_def format_defs truthy_def
        formatPhoneNumber_def is_digit_def)
  show ?thesis
    using a b duration_zero_before_connect [OF a, of 9000]
    by (simp add: list_ex_iff)
qed

subsection \<open>The total of the hold sessions\<close>

lemma endHoldTimer_accounting: "hold_accounting_ok s \<Longrightarrow> hold_accounting_ok (endHoldTimer now s)"
  by (simp add: hold_accounting_ok_def endHoldTimer_def Let_def split: option.splits)

lemma finalizeCall_accounting:
  "hold_accounting_ok s \<Longrightarrow> hold_accounting_ok (finalizeCall endedAt holdEnd s)"
  by (simp add: hold_accounting_ok_def finalizeCall_def endHoldTimer_def cleanupTimers_def
      stopToolkitPolling_def Let_def split: option.splits)

lemma step_accounting: "hold_accounting_ok s \<Longrightarrow> hold_accounting_ok (step x s)"
proof (cases x)
  case (Toolkit_Event e detail now now2)
  assume "hold_accounting_ok s"
  with Toolkit_Event show ?thesis
    by (cases e)
      (simp_all add: handleHoldEvent_def handleResumeEvent_def handleMuteEvent_def
        handleUnmuteEvent_def handleCallStartedEvent_def handleCallConnectedEvent_def
        handleCallEndedEvent_def endHoldTimer_accounting finalizeCall_accounting,
       simp_all add: hold_accounting_ok_def startHoldTimer_def handleCallStarted_def
        resetHoldTimer_def startCallDurationTimer_def)
next
  case (End_Call_Click res now now2)
  assume "hold_accounting_ok s"
  with End_Call_Click show ?thesis
    by (simp add: handleEndCall_def finalizeCall_accounting)
qed (simp_all add: hold_accounting_ok_def method_defs Let_def split: option.splits)

lemma run_accounting: "hold_accounting_ok s \<Longrightarrow> hold_accounting_ok (run xs s)"
  by (induction xs arbitrary: s) (simp_all add: step_accounting)

text \<open>
  C6. After any sequence of stimuli on the fresh component, \<open>totalHoldTime\<close> is the sum
  of the durations of the recorded hold sessions, and the session numbers of the \<open>N\<close>
  recorded sessions are \<open>1, \<dots>, N\<close> in this order.
\<close>

theorem hold_total_is_sum_of_sessions:
  "totalHoldTime (run xs initial) = sum_list (map duration (holdSessions (run xs initial))) \<and>
   map sessionNumber (holdSessions (run xs initial))
     = [1..<Suc (length (holdSessions (run xs initial)))]"
proof -
  have "hold_accounting_ok initial"
    by (simp add: hold_accounting_ok_def initial_def)
  then have "hold_accounting_ok (run xs initial)"
    by (rule run_accounting)
  then show ?thesis
    by (simp add: hold_accounting_ok_def map_Suc_upt del: upt_Suc)
qed

text \<open>The call with three hold sessions of 45, 12 and 130 seconds: the total is 187.\<close>

theorem hold_total_is_sum_of_sessions_witness:
  "holdSessions (run three_holds_call initial) =
     [\<lparr> sessionNumber = 1, startTime = 3000, endTime = 48000, duration = 45 \<rparr>,
      \<lparr> sessionNumber = 2, startTime = 50000, endTime = 62500, duration = 12 \<rparr>,
      \<lparr> sessionNumber = 3, startTime = 70000, endTime = 200000, duration = 130 \<rparr>] \<and>
   totalHoldTime (run three_holds_call initial) = 187"
  using hold_total_is_sum_of_sessions [of three_holds_call]
  by (simp add: three_holds_call_sessions)

subsection \<open>Repeated hold starts and unmatched hold ends\<close>

text \<open>
  In every state the component reaches, the hold flag is set exactly when a hold start is
  stored: the one field \<open>currentHoldStart\<close> is the one open hold session.
\<close>

lemma step_hold_flag:
  "isOnHold s = (currentHoldStart s \<noteq> None) \<Longrightarrow>
   isOnHold (step x s) = (currentHoldStart (step x s) \<noteq> None)"
proof (cases x)
  case (Toolkit_Event e detail now now2)
  assume "isOnHold s = (currentHoldStart s \<noteq> None)"
  with Toolkit_Event show ?thesis
    by (cases e) (auto simp add: method_defs Let_def split: option.splits)
qed (auto simp add: method_defs Let_def split: option.splits)

lemma run_hold_flag: "isOnHold (run xs initial) = (currentHoldStart (run xs initial) \<noteq> None)"
proof -
  have "isOnHold s = (currentHoldStart s \<noteq> None) \<Longrightarrow>
        isOnHold (run xs s) = (currentHoldStart (run xs s) \<noteq> None)" for s
    by (induction xs arbitrary: s) (simp_all add: step_hold_flag)
  then show ?thesis
    by (simp add: initial_def)
qed

lemma fold_startHoldTimer_on_hold: "isOnHold s \<Longrightarrow> fold startHoldTimer ts s = s"
  by (induction ts) (simp_all add: startHoldTimer_def)

lemma run_hold_events_on_hold:
  "isOnHold s \<Longrightarrow> run (map (\<lambda>(detail, t, u). Toolkit_Event Hold detail t u) dts) s = s"
  by (induction dts) (auto simp add: handleHoldEvent_def startHoldTimer_def)

text \<open>
  C7. While the call is on hold, a hold start changes nothing: \<open>startHoldTimer\<close> and the
  handler of the \<^verbatim>\<open>hold\<close> event return the state they were given, and so does any sequence
  of them. From a state that is not on hold, a sequence of hold starts at the times
  \<open>now # ts\<close> leaves the state that the first one alone leaves: the open hold session is
  the one started at \<open>now\<close>, and the total and the recorded sessions are untouched.
\<close>

theorem repeated_hold_start_is_noop:
  "(isOnHold s \<longrightarrow>
      startHoldTimer now s = s \<and> handleHoldEvent detail now s = s \<and>
      fold startHoldTimer ts s = s \<and>
      run (map (\<lambda>(detail, t, u). Toolkit_Event Hold detail t u) dts) s = s) \<and>
   (\<not> isOnHold s \<longrightarrow>
      fold startHoldTimer (now # ts) s = startHoldTimer now s \<and>
      isOnHold (fold startHoldTimer (now # ts) s) \<and>
      currentHoldStart (fold startHoldTimer (now # ts) s) = Some now \<and>
      totalHoldTime (fold startHoldTimer (now # ts) s) = totalHoldTime s \<and>
      holdSessions (fold startHoldTimer (now # ts) s) = holdSessions s)"
proof -
  have "isOnHold (startHoldTimer now s)"
    by (simp add: startHoldTimer_def)
  then have "fold startHoldTimer ts (startHoldTimer now s) = startHoldTimer now s"
    by (rule fold_startHoldTimer_on_hold)
  then show ?thesis
    by (simp add: fold_startHoldTimer_on_hold run_hold_events_on_hold handleHoldEvent_def)
      (simp add: startHoldTimer_def)
qed

text \<open>
  Three more \<^verbatim>\<open>hold\<close> events on the call held since second 3 leave its state as it is;
  three hold starts on the connected call open the hold of the first, at second 3.
\<close>

theorem repeated_hold_start_is_noop_witness:
  "isOnHold (run held_call initial) \<and>
   run [Toolkit_Event Hold Serializable 4000 4000, Toolkit_Event Hold Unserializable 5000 5000,
        Toolkit_Event Hold Serializable 6000 6000] (run held_call initial) = run held_call initial \<and>
   \<not> isOnHold (run connected_call initial) \<and>
   currentHoldStart (fold startHoldTimer [3000, 4000, 5000] (run connected_call initial))
     = Some 3000 \<and>
   holdSessions (fold startHoldTimer [3000, 4000, 5000] (run connected_call initial)) = []"
proof -
  have a: "isOnHold (run held_call initial)"
    by (simp add: held_call_state)
  have b: "\<not> isOnHold (run connected_call initial)"
    and c: "holdSessions (run connected_call initial) = []"
    by (simp_all add: connected_call_state)
  show ?thesis
    using a b c
      repeated_hold_start_is_noop [of "run held_call initial" 0 Serializable "[]"
        "[(Serializable, 4000, 4000), (Unserializable, 5000, 5000), (Serializable, 6000, 6000)]"]
      repeated_hold_start_is_noop [of "run connected_call initial" 3000 Serializable
        "[4000, 5000]" "[]"]
    by auto
qed

lemma endHoldTimer_not_on_hold:
  "\<not> isOnHold s \<or> currentHoldStart s = None \<Longrightarrow> endHoldTimer now s = s"
  by (auto simp add: endHoldTimer_def split: option.splits)

text \<open>
  C8. When no hold session is open (the hold flag is clear, or no hold start is stored),
  a hold end changes nothing, and neither does any sequence of hold ends: the state, and
  with it the total and the recorded sessions, is the one before.
\<close>

theorem hold_end_without_hold_is_noop:
  "\<not> isOnHold s \<or> currentHoldStart s = None \<Longrightarrow>
   endHoldTimer now s = s \<and> fold endHoldTimer ts s = s \<and>
   totalHoldTime (fold endHoldTimer ts s) = totalHoldTime s \<and>
   holdSessions (fold endHoldTimer ts s) = holdSessions s"
proof -
  assume h: "\<not> isOnHold s \<or> currentHoldStart s = None"
  have "fold endHoldTimer ts s = s"
    by (induction ts) (simp_all add: endHoldTimer_not_on_hold [OF h])
  with h show ?thesis
    by (simp add: endHoldTimer_not_on_hold)
qed

text \<open>
  Three hold ends on the connected call, which was never on hold, and on the ended
  example call, whose one session of 45 seconds is closed.
\<close>

theorem hold_end_without_hold_is_noop_witness:
  "\<not> isOnHold (run connected_call initial) \<and>
   fold endHoldTimer [3000, 4000, 5000] (run connected_call initial) = run connected_call initial \<and>
   totalHoldTime (fold endHoldTimer [3000, 4000, 5000] (run example_call initial)) = 45 \<and>
   length (holdSessions (fold endHoldTimer [3000, 4000, 5000] (run example_call initial))) = 1"
proof -
  have a: "\<not> isOnHold (run connected_call initial) \<or>
           currentHoldStart (run connected_call initial) = None"
    by (simp add: connected_call_state)
  have b: "\<not> isOnHold (run example_call initial) \<or>
           currentHoldStart (run example_call initial) = None"
    and c: "totalHoldTime (run example_call initial) = 45"
    and d: "length (holdSessions (run example_call initial)) = 1"
    by (simp_all add: example_call_state)
  have e: "\<not> isOnHold (run connected_call initial)"
    by (simp add: connected_call_state)
  show ?thesis
    using c d e
      hold_end_without_hold_is_noop [OF a, of 7000 "[3000, 4000, 5000]"]
      hold_end_without_hold_is_noop [OF b, of 7000 "[3000, 4000, 5000]"]
    by auto
qed

subsection \<open>The colour of the hold timer\<close>

text \<open>
  C9. The colour class depends on the number of seconds alone: green (the low tier) from
  0 to 30, yellow (the medium tier) above 30 and up to 120, red (the high tier) above 120.
  The hold tick and the hold end both set the class from the total they display, the
  accumulated total plus the whole seconds of the open hold.
\<close>

theorem hold_colour_tiers:
  "(0 \<le> t \<and> t \<le> 30 \<longrightarrow> getHoldColorClass t = ''hold-timer-green'') \<and>
   (30 < t \<and> t \<le> 120 \<longrightarrow> getHoldColorClass t = ''hold-timer-yellow'') \<and>
   (120 < t \<longrightarrow> getHoldColorClass t = ''hold-timer-red'') \<and>
   (isOnHold s \<and> currentHoldStart s = Some started \<and> started \<noteq> 0 \<longrightarrow>
      holdColorClass (updateHoldDisplayTimer now s)
        = getHoldColorClass (totalHoldTime s + (now - started) div 1000) \<and>
      holdColorClass (endHoldTimer now s)
        = getHoldColorClass (totalHoldTime s + (now - started) div 1000))"
  by (simp add: getHoldColorClass_def updateHoldDisplayTimer_def endHoldTimer_def Let_def)

text \<open>
  The boundaries: 0 and 30 are green, 31 and 120 yellow, 121 red; on the call held since
  second 3, the tick at second 33 shows green, the tick at second 34 yellow, and a hold
  end at second 124 red.
\<close>

theorem hold_colour_tiers_witness:
  "getHoldColorClass 0 = ''hold-timer-green'' \<and>
   getHoldColorClass 30 = ''hold-timer-green'' \<and>
   getHoldColorClass 31 = ''hold-timer-yellow'' \<and>
   getHoldColorClass 120 = ''hold-timer-yellow'' \<and>
   getHoldColorClass 121 = ''hold-timer-red'' \<and>
   holdColorClass (updateHoldDisplayTimer 33000 (run held_call initial)) = ''hold-timer-green'' \<and>
   holdColorClass (updateHoldDisplayTimer 34000 (run held_call initial)) = ''hold-timer-yellow'' \<and>
   holdColorClass (endHoldTimer 124000 (run held_call initial)) = ''hold-timer-red''"
proof -
  have a: "isOnHold (run held_call initial)"
    and b: "currentHoldStart (run held_call initial) = Some 3000"
    and c: "totalHoldTime (run held_call initial) = 0"
    by (simp_all add: held_call_state)
  show ?thesis
    using a b c
      hold_colour_tiers [of 0] hold_colour_tiers [of 30] hold_colour_tiers [of 31]
      hold_colour_tiers [of 120] hold_colour_tiers [of 121]
      hold_colour_tiers [of 30 "run held_call initial" 3000 33000]
      hold_colour_tiers [of 31 "run held_call initial" 3000 34000]
      hold_colour_tiers [of 121 "run held_call initial" 3000 124000]
    by simp
qed

subsection \<open>The public hold time getters\<close>

text \<open>
  C10. \<open>getCurrentHoldTime\<close> is 0 when the hold flag is clear or no hold start is stored.
  \<open>getTotalHoldTime\<close> is the accumulated total plus \<open>getCurrentHoldTime\<close>: the accumulated
  total itself when the call is not on hold, and the total plus the whole seconds of the
  open hold when it is. That is the total the hold tick displays, and the total a hold
  end at the same time accumulates.
\<close>

theorem hold_time_getters:
  "(\<not> isOnHold s \<or> currentHoldStart s = None \<longrightarrow> getCurrentHoldTime now s = 0) \<and>
   getTotalHoldTime now s = totalHoldTime s + getCurrentHoldTime now s \<and>
   (\<not> isOnHold s \<longrightarrow> getTotalHoldTime now s = totalHoldTime s) \<and>
   (isOnHold s \<and> currentHoldStart s = Some started \<and> started \<noteq> 0 \<longrightarrow>
      getCurrentHoldTime now s = (now - started) div 1000 \<and>
      getTotalHoldTime now s = totalHoldTime s + (now - started) div 1000 \<and>
      formattedTotalHoldTime (updateHoldDisplayTimer now s)
        = formatTime (getTotalHoldTime now s) False \<and>
      totalHoldTime (endHoldTimer now s) = getTotalHoldTime now s)"
  by (auto simp add: getTotalHoldTime_def getCurrentHoldTime_def updateHoldDisplayTimer_def
      endHoldTimer_def Let_def split: option.splits)

text \<open>
  At second 70: on the ended example call the current hold time is 0 and the total 45;
  on the call in its second hold since second 50 the current hold time is 20 and the
  total 65.
\<close>

theorem hold_time_getters_witness:
  "\<not> isOnHold (run example_call initial) \<and>
   getCurrentHoldTime 70000 (run example_call initial) = 0 \<and>
   getTotalHoldTime 70000 (run example_call initial) = 45 \<and>
   isOnHold (run second_hold_call initial) \<and>
   getCurrentHoldTime 70000 (run second_hold_call initial) = 20 \<and>
   getTotalHoldTime 70000 (run second_hold_call initial) = 65"
proof -
  have a: "\<not> isOnHold (run example_call initial)"
    and b: "totalHoldTime (run example_call initial) = 45"
    by (simp_all add: example_call_state)
  have c: "isOnHold (run second_hold_call initial)"
    and d: "currentHoldStart (run second_hold_call initial) = Some 50000"
    and e: "totalHoldTime (run second_hold_call initial) = 45"
    by (simp_all add: second_hold_call_state)
  show ?thesis
    using a b c d e
      hold_time_getters [of "run example_call initial" 70000 0]
      hold_time_getters [of "run second_hold_call initial" 70000 50000]
    by auto
qed

end
